theory Spec2Isabelle
  imports Main
begin

section \<open>Data model (types.ts)\<close>

text \<open>
  The interfaces of the chat client. A JavaScript string is a \<open>string\<close>, an optional
  field is an \<open>option\<close>, a timestamp (\<open>Date.now()\<close>) is a \<open>nat\<close>. Record fields carry
  a prefix because record fields are global constants in HOL.
\<close>

datatype attachment_type = Image | File | Audio

datatype role = UserRole | ModelRole

datatype LoadingState = IDLE | THINKING | STREAMING | ERROR

record User =
  usr_id :: string
  usr_name :: string
  usr_email :: string
  usr_avatarUrl :: string

record Attachment =
  att_type :: attachment_type
  att_content :: string
  att_mimeType :: string
  att_name :: "string option"

record Message =
  msg_id :: string
  msg_role :: role
  msg_content :: string
  msg_attachments :: "Attachment list option"
  msg_timestamp :: nat

record ChatSession =
  sess_id :: string
  sess_title :: string
  sess_messages :: "Message list"
  sess_createdAt :: nat

section \<open>The remote service as seen from geminiService.ts\<close>

text \<open>
  The parts and turns handed to the SDK, and the fields of its answers that the code
  reads. A field the code guards (\<open>result.text || ""\<close>, \<open>functionCalls && ...\<close>) or
  reads through (\<open>call.args['prompt']\<close>, \<open>generatedImages[0].image.imageBytes\<close>) is an
  \<open>option\<close>: \<open>None\<close> is JavaScript's \<open>undefined\<close>.
\<close>

datatype part =
    InlineData string string
  | Text string
  | FunctionResponse string "string option" string

record Content =
  cnt_role :: role
  cnt_parts :: "part list"

record FunctionCall =
  fc_name :: string
  fc_args :: "(string \<times> string) list option"
  fc_id :: "string option"

record GenerateContentResponse =
  res_text :: "string option"
  res_functionCalls :: "FunctionCall list option"

datatype GeneratedImage = GeneratedImage (gi_image: "string option option")

record GenerateImagesResponse =
  gir_generatedImages :: "GeneratedImage list option"

datatype js_error = Error string | TypeError string

text \<open>
  The remote service is an oracle: each operation maps the request to a rejection
  (\<open>Inl\<close>) or an answer (\<open>Inr\<close>). \<open>sendMessage\<close> is the first \<open>chat.sendMessage\<close> of a
  turn (the chat's history and the new parts), \<open>sendFunctionResponse\<close> the second one on
  the same chat (the tool result), \<open>generateImages\<close> is \<open>ai.models.generateImages\<close>.
\<close>

record remote =
  sendMessage :: "Content list \<Rightarrow> part list \<Rightarrow> js_error + GenerateContentResponse"
  generateImages :: "string option \<Rightarrow> js_error + GenerateImagesResponse"
  sendFunctionResponse :: "part list \<Rightarrow> js_error + GenerateContentResponse"

text \<open>The requests a turn issued to the remote service, in order.\<close>

datatype remote_call =
    SendMessage "Content list" "part list"
  | GenerateImages "string option"
  | SendFunctionResponse "part list"

record outcome =
  out_text :: string
  out_attachments :: "Attachment list"

section \<open>geminiService.ts\<close>

definition lineTerminator :: "char \<Rightarrow> bool" where
  "lineTerminator c \<longleftrightarrow> c = CHR 0x0A \<or> c = CHR 0x0D"

text \<open>
  \<open>cleanBase64\<close>: the match of \<open>/^data:(.+);base64,(.+)$/\<close>. Both groups are
  non-empty and free of line terminators (line feed and carriage return, among the
  characters a \<open>char\<close> can hold), the first group is greedy, so the marker taken is
  the last \<open>;base64,\<close> that leaves a non-empty rest.
\<close>

definition cleanBase64 :: "string \<Rightarrow> string" where
  "cleanBase64 dataUrl =
     (let r = drop 5 dataUrl in
      if take 5 dataUrl = ''data:'' \<and> \<not> list_ex lineTerminator r then
        (case filter (\<lambda>i. take 8 (drop i r) = '';base64,'' \<and> drop (i + 8) r \<noteq> [])
                (rev [1..<length r]) of
           [] \<Rightarrow> dataUrl
         | i # _ \<Rightarrow> drop (i + 8) r)
      else dataUrl)"

definition inlineData :: "Attachment \<Rightarrow> part" where
  "inlineData att = InlineData (att_mimeType att) (cleanBase64 (att_content att))"

text \<open>Lines 66-90: one turn per historical message, attachments first, then the text.\<close>

definition chatHistory :: "Message list \<Rightarrow> Content list" where
  "chatHistory history =
     map (\<lambda>msg.
        \<lparr>cnt_role = msg_role msg,
         cnt_parts =
           (case msg_attachments msg of
              None \<Rightarrow> []
            | Some atts \<Rightarrow> if length atts > 0 then map inlineData atts else [])
           @ (if msg_content msg \<noteq> [] then [Text (msg_content msg)] else [])\<rparr>)
       history"

text \<open>Lines 102-115: the parts of the new message.\<close>

definition currentParts :: "string \<Rightarrow> Attachment list \<Rightarrow> part list" where
  "currentParts newMessage newAttachments =
     map inlineData newAttachments @ (if newMessage \<noteq> [] then [Text newMessage] else [])"

text \<open>
  Lines 126-177: the function-call handling. The result is the pair
  \<open>(responseText, generatedAttachments)\<close> or the error that leaves the block, with the
  requests issued. The inner \<open>try\<close> covers the image call, the read of the image bytes
  and the second \<open>chat.sendMessage\<close>; the read of \<open>call.args['prompt']\<close> is outside it.
\<close>

definition handleFunctionCalls ::
  "remote \<Rightarrow> GenerateContentResponse \<Rightarrow> (js_error + string \<times> Attachment list) \<times> remote_call list"
where
  "handleFunctionCalls env result =
     (let responseText = (case res_text result of None \<Rightarrow> [] | Some t \<Rightarrow> t) in
      case res_functionCalls result of
        None \<Rightarrow> (Inr (responseText, []), [])
      | Some [] \<Rightarrow> (Inr (responseText, []), [])
      | Some (call # _) \<Rightarrow>
          if fc_name call = ''generate_image'' then
            (case fc_args call of
               None \<Rightarrow> (Inl (TypeError ''Cannot read properties of undefined''), [])
             | Some args \<Rightarrow>
                (let prompt = map_of args ''prompt'';
                     caught = ''I apologize, but I encountered an error while attempting to generate the image.''
                 in case generateImages env prompt of
                      Inl err \<Rightarrow> (Inr (caught, []), [GenerateImages prompt])
                    | Inr imageResponse \<Rightarrow>
                       (case gir_generatedImages imageResponse of
                          Some (g # _) \<Rightarrow>
                            (case gi_image g of
                               None \<Rightarrow> (Inr (caught, []), [GenerateImages prompt])
                             | Some imageBytes \<Rightarrow>
                                (let generatedAttachments =
                                       [\<lparr>att_type = Image,
                                         att_content = ''data:image/jpeg;base64,''
                                           @ (case imageBytes of None \<Rightarrow> ''undefined'' | Some b \<Rightarrow> b),
                                         att_mimeType = ''image/jpeg'',
                                         att_name = Some ''generated_image.jpg''\<rparr>];
                                     message =
                                       [FunctionResponse ''generate_image'' (fc_id call)
                                          ''Image generated successfully.'']
                                 in case sendFunctionResponse env message of
                                      Inl err \<Rightarrow>
                                        (Inr (caught, generatedAttachments),
                                         [GenerateImages prompt, SendFunctionResponse message])
                                    | Inr funcResponse \<Rightarrow>
                                        (Inr ((case res_text funcResponse of
                                                 None \<Rightarrow> ''I have generated the image for you.''
                                               | Some t \<Rightarrow>
                                                   if t \<noteq> [] then t
                                                   else ''I have generated the image for you.''),
                                              generatedAttachments),
                                         [GenerateImages prompt, SendFunctionResponse message])))
                        | _ \<Rightarrow>
                            (Inr (''I tried to generate an image, but no image was returned.'', []),
                             [GenerateImages prompt]))))
          else (Inr (responseText, []), []))"

text \<open>Lines 179-184: the fallback for an outcome with no text and no attachments.\<close>

definition fallback :: "string \<times> Attachment list \<Rightarrow> outcome" where
  "fallback r =
     (case r of (responseText, generatedAttachments) \<Rightarrow>
        \<lparr>out_text =
           (if responseText = [] \<and> length generatedAttachments = 0
            then ''I processed your request but have no text response.''
            else responseText),
         out_attachments = generatedAttachments\<rparr>)"

text \<open>The body of the outer \<open>try\<close> of \<open>sendMessageToGemini\<close> (lines 63-184).\<close>

definition sendMessageToGemini_try ::
  "remote \<Rightarrow> Message list \<Rightarrow> string \<Rightarrow> Attachment list \<Rightarrow> (js_error + outcome) \<times> remote_call list"
where
  "sendMessageToGemini_try env history newMessage newAttachments =
     (let chat = chatHistory history;
          parts = currentParts newMessage newAttachments
      in if length parts = 0 then (Inl (Error ''Message cannot be empty''), [])
         else
           (case sendMessage env chat parts of
              Inl err \<Rightarrow> (Inl err, [SendMessage chat parts])
            | Inr result \<Rightarrow>
               (case handleFunctionCalls env result of
                  (Inl err, calls) \<Rightarrow> (Inl err, SendMessage chat parts # calls)
                | (Inr r, calls) \<Rightarrow> (Inr (fallback r), SendMessage chat parts # calls))))"

text \<open>
  \<open>sendMessageToGemini\<close>: the outer \<open>catch\<close> (lines 185-188) replaces every error by
  one fixed error.
\<close>

definition sendMessageToGemini ::
  "remote \<Rightarrow> Message list \<Rightarrow> string \<Rightarrow> Attachment list \<Rightarrow> (js_error + outcome) \<times> remote_call list"
where
  "sendMessageToGemini env history newMessage newAttachments =
     (case sendMessageToGemini_try env history newMessage newAttachments of
        (Inl err, calls) \<Rightarrow> (Inl (Error ''Failed to get response from VAIRAM AI.''), calls)
      | (Inr out, calls) \<Rightarrow> (Inr out, calls))"

section \<open>App.tsx: the application state and its handlers\<close>

text \<open>
  The React state of \<open>App\<close>. A handler runs against the state of the render that
  created it (its closure): \<open>sessions\<close>, \<open>currentSessionId\<close> and \<open>user\<close> read inside
  a handler are the fields of that state, also after an \<open>await\<close>. A functional update
  \<open>setSessions(prev => ...)\<close> applies to the state as the earlier updates of the same
  handler left it. A turn is modelled without other events between its steps.
\<close>

record app_state =
  user :: "User option"
  sessions :: "ChatSession list"
  currentSessionId :: "string option"
  loadingState :: LoadingState

text \<open>
  What a handler did: the state it leaves, the values it passed to \<open>setLoadingState\<close>
  in order, and the requests it issued to the remote service in order.
\<close>

record run =
  run_state :: app_state
  run_loads :: "LoadingState list"
  run_calls :: "remote_call list"

definition start :: "app_state \<Rightarrow> run" where
  "start s = \<lparr>run_state = s, run_loads = [], run_calls = []\<rparr>"

definition setSessions :: "(ChatSession list \<Rightarrow> ChatSession list) \<Rightarrow> run \<Rightarrow> run" where
  "setSessions f r = r\<lparr>run_state := (run_state r)\<lparr>sessions := f (sessions (run_state r))\<rparr>\<rparr>"

definition setCurrentSessionId :: "string option \<Rightarrow> run \<Rightarrow> run" where
  "setCurrentSessionId v r = r\<lparr>run_state := (run_state r)\<lparr>currentSessionId := v\<rparr>\<rparr>"

definition setLoadingState :: "LoadingState \<Rightarrow> run \<Rightarrow> run" where
  "setLoadingState v r =
     r\<lparr>run_state := (run_state r)\<lparr>loadingState := v\<rparr>, run_loads := run_loads r @ [v]\<rparr>"

definition issued :: "remote_call list \<Rightarrow> run \<Rightarrow> run" where
  "issued cs r = r\<lparr>run_calls := run_calls r @ cs\<rparr>"

text \<open>
  \<open>Date.now()\<close>: a clock gives the value read at each call site, named by its line in
  App.tsx. Template literals print it in decimal.
\<close>

type_synonym clock = "nat \<Rightarrow> nat"

function show_nat :: "nat \<Rightarrow> string" where
  "show_nat n =
     (if n < 10 then [''0123456789'' ! n]
      else show_nat (n div 10) @ [''0123456789'' ! (n mod 10)])"
  by pat_completeness auto
termination
  by (relation "measure (\<lambda>n. n)") auto

declare show_nat.simps [simp del]

text \<open>JavaScript truthiness of \<open>string | null\<close>: \<open>null\<close> and \<open>""\<close> are falsy.\<close>

definition truthy :: "string option \<Rightarrow> bool" where
  "truthy v = (case v of None \<Rightarrow> False | Some x \<Rightarrow> x \<noteq> [])"

text \<open>\<open>Array.prototype.findIndex\<close>, with \<open>None\<close> for \<open>-1\<close>.\<close>

fun findIndex :: "('a \<Rightarrow> bool) \<Rightarrow> 'a list \<Rightarrow> nat option" where
  "findIndex p [] = None"
| "findIndex p (x # xs) =
     (if p x then Some 0 else (case findIndex p xs of None \<Rightarrow> None | Some i \<Rightarrow> Some (Suc i)))"

text \<open>
  The update \<open>prev.map(session => session.id === id ? {...session, messages:
  [...session.messages, m]} : session)\<close> of lines 168-175, 228-235 and 253-260. The
  identifier compared is a \<open>string | null\<close>.
\<close>

definition appendMessage :: "string option \<Rightarrow> Message \<Rightarrow> ChatSession list \<Rightarrow> ChatSession list" where
  "appendMessage sid m prev =
     map (\<lambda>session.
        if Some (sess_id session) = sid
        then session\<lparr>sess_messages := sess_messages session @ [m]\<rparr>
        else session) prev"

definition createNewChat :: "clock \<Rightarrow> app_state \<Rightarrow> app_state" where
  "createNewChat now s =
     (if user s = None then s
      else
        (let newChatId = ''chat_'' @ show_nat (now 64);
             newSession =
               \<lparr>sess_id = newChatId, sess_title = ''New Conversation'',
                sess_messages = [], sess_createdAt = now 69\<rparr>
         in s\<lparr>sessions := newSession # sessions s, currentSessionId := Some newChatId\<rparr>))"

definition handleRenameChat :: "string \<Rightarrow> string \<Rightarrow> app_state \<Rightarrow> app_state" where
  "handleRenameChat ident newTitle s =
     s\<lparr>sessions :=
         map (\<lambda>session. if sess_id session = ident then session\<lparr>sess_title := newTitle\<rparr> else session)
           (sessions s)\<rparr>"

definition handleDeleteChat :: "string \<Rightarrow> app_state \<Rightarrow> app_state" where
  "handleDeleteChat ident s =
     (let remaining = filter (\<lambda>x. sess_id x \<noteq> ident) (sessions s);
          s1 = s\<lparr>sessions := remaining\<rparr>
      in if currentSessionId s = Some ident
         then s1\<lparr>currentSessionId :=
                   (case remaining of [] \<Rightarrow> None | x # _ \<Rightarrow> Some (sess_id x))\<rparr>
         else s1)"

text \<open>
  \<open>handleError\<close> (lines 244-263). Its \<open>currentSessionId\<close> is the one of the closure,
  passed here as an argument. The message has no \<open>attachments\<close> field.
\<close>

definition errorMessage :: "clock \<Rightarrow> Message" where
  "errorMessage now =
     \<lparr>msg_id = ''msg_'' @ show_nat (now 247) @ ''_err'',
      msg_role = ModelRole,
      msg_content = ''I apologize, but I encountered an error while processing your request. Please try again.'',
      msg_attachments = None,
      msg_timestamp = now 250\<rparr>"

definition handleError :: "clock \<Rightarrow> string option \<Rightarrow> run \<Rightarrow> run" where
  "handleError now closureSessionId r =
     (let r1 = setLoadingState ERROR r;
          r2 = setSessions (appendMessage closureSessionId (errorMessage now)) r1
      in setLoadingState IDLE r2)"

text \<open>The title given to a session by its first message (lines 126-131).\<close>

definition newTitle :: "ChatSession \<Rightarrow> string \<Rightarrow> Attachment list \<Rightarrow> string" where
  "newTitle session content attachments =
     (let isFirstMessage = (length (sess_messages session) = 0) in
      if isFirstMessage then
        (if content \<noteq> [] then take 30 content @ (if length content > 30 then ''...'' else [])
         else (if length attachments > 0 then ''Image Analysis'' else ''New Conversation''))
      else sess_title session)"

text \<open>
  \<open>handleSendMessage\<close> (lines 94-182), by its blocks. Lines 96-110: the session the
  turn works on, created when none is selected.
\<close>

definition newChatId :: "clock \<Rightarrow> string" where
  "newChatId now = ''chat_'' @ show_nat (now 99)"

definition activeSessionId :: "clock \<Rightarrow> app_state \<Rightarrow> string" where
  "activeSessionId now s =
     (case currentSessionId s of
        None \<Rightarrow> newChatId now
      | Some x \<Rightarrow> if truthy (Some x) then x else newChatId now)"

definition ensureSession :: "clock \<Rightarrow> app_state \<Rightarrow> run \<Rightarrow> run" where
  "ensureSession now s r =
     (if truthy (currentSessionId s) then r
      else
        (let newSession =
               \<lparr>sess_id = newChatId now, sess_title = ''New Conversation'',
                sess_messages = [], sess_createdAt = now 104\<rparr>
         in setCurrentSessionId (Some (newChatId now)) (setSessions (\<lambda>prev. newSession # prev) r)))"

text \<open>Lines 112-118.\<close>

definition newMessage :: "clock \<Rightarrow> string \<Rightarrow> Attachment list \<Rightarrow> Message" where
  "newMessage now content attachments =
     \<lparr>msg_id = ''msg_'' @ show_nat (now 113) @ ''_u'',
      msg_role = UserRole,
      msg_content = content,
      msg_attachments = Some attachments,
      msg_timestamp = now 117\<rparr>"

text \<open>Lines 123-144: the update that appends the user message.\<close>

definition addUserMessage ::
  "clock \<Rightarrow> app_state \<Rightarrow> string \<Rightarrow> Attachment list \<Rightarrow> ChatSession list \<Rightarrow> ChatSession list"
where
  "addUserMessage now s content attachments prev =
     map (\<lambda>session.
        if sess_id session = activeSessionId now s
        then session\<lparr>sess_title := newTitle session content attachments,
                     sess_messages := sess_messages session @ [newMessage now content attachments]\<rparr>
        else session) prev"

text \<open>Lines 153-155: the history handed to \<open>sendMessageToGemini\<close>, from the closure's sessions.\<close>

definition contextMessages :: "clock \<Rightarrow> app_state \<Rightarrow> string \<Rightarrow> Attachment list \<Rightarrow> Message list" where
  "contextMessages now s content attachments =
     (let sessionToUpdate = find (\<lambda>x. sess_id x = activeSessionId now s) (sessions s);
          previousMessages = (case sessionToUpdate of Some x \<Rightarrow> sess_messages x | None \<Rightarrow> [])
      in previousMessages @ [newMessage now content attachments])"

text \<open>Lines 159-165 and 219-225: the model message built from the outcome.\<close>

definition botMessage :: "nat \<Rightarrow> nat \<Rightarrow> outcome \<Rightarrow> Message" where
  "botMessage t1 t2 out =
     \<lparr>msg_id = ''msg_'' @ show_nat t1 @ ''_b'',
      msg_role = ModelRole,
      msg_content = out_text out,
      msg_attachments = Some (out_attachments out),
      msg_timestamp = t2\<rparr>"

definition handleSendMessage :: "remote \<Rightarrow> clock \<Rightarrow> app_state \<Rightarrow> string \<Rightarrow> Attachment list \<Rightarrow> run" where
  "handleSendMessage env now s content attachments =
     (let r1 = ensureSession now s (start s);
          r2 = setSessions (addUserMessage now s content attachments) r1;
          r3 = setLoadingState THINKING r2
      in case sendMessageToGemini env (contextMessages now s content attachments) content attachments of
           (Inr out, calls) \<Rightarrow>
             setLoadingState IDLE
               (setSessions
                  (appendMessage (Some (activeSessionId now s)) (botMessage (now 160) (now 164) out))
                  (issued calls r3))
         | (Inl err, calls) \<Rightarrow> handleError now (currentSessionId s) (issued calls r3))"

text \<open>
  \<open>handleEditMessage\<close> (lines 185-242). Lines 194-202: the attachments kept
  (\<open>attachments || []\<close>) and the message that replaces the edited one.
\<close>

definition originalAttachments :: "Message \<Rightarrow> Attachment list" where
  "originalAttachments m = (case msg_attachments m of None \<Rightarrow> [] | Some a \<Rightarrow> a)"

definition updatedUserMessage :: "clock \<Rightarrow> Message \<Rightarrow> string \<Rightarrow> Message" where
  "updatedUserMessage now m newContent =
     m\<lparr>msg_content := newContent,
       msg_timestamp := now 200,
       msg_attachments := Some (originalAttachments m)\<rparr>"

definition handleEditMessage :: "remote \<Rightarrow> clock \<Rightarrow> app_state \<Rightarrow> string \<Rightarrow> string \<Rightarrow> run" where
  "handleEditMessage env now s messageId newContent =
     (if \<not> truthy (currentSessionId s) then start s
      else
        (case find (\<lambda>x. Some (sess_id x) = currentSessionId s) (sessions s) of
           None \<Rightarrow> start s
         | Some currentSession \<Rightarrow>
            (case findIndex (\<lambda>m. msg_id m = messageId) (sess_messages currentSession) of
               None \<Rightarrow> start s
             | Some msgIndex \<Rightarrow>
                (let edited = sess_messages currentSession ! msgIndex;
                     historyBefore = take msgIndex (sess_messages currentSession);
                     r1 =
                       setSessions
                         (map (\<lambda>session.
                            if Some (sess_id session) = currentSessionId s
                            then session\<lparr>sess_messages :=
                                           historyBefore @ [updatedUserMessage now edited newContent]\<rparr>
                            else session)) (start s);
                     r2 = setLoadingState THINKING r1
                 in case sendMessageToGemini env historyBefore newContent (originalAttachments edited) of
                      (Inr out, calls) \<Rightarrow>
                        setLoadingState IDLE
                          (setSessions
                             (appendMessage (currentSessionId s) (botMessage (now 220) (now 224) out))
                             (issued calls r2))
                    | (Inl err, calls) \<Rightarrow> handleError now (currentSessionId s) (issued calls r2)))))"

section \<open>ChatWindow.tsx: the send affordance\<close>

text \<open>
  \<open>String.prototype.trim\<close> on the characters a \<open>char\<close> can hold: tab, line feed,
  vertical tab, form feed, carriage return, space and no-break space.
\<close>

definition whiteSpace :: "char \<Rightarrow> bool" where
  "whiteSpace c \<longleftrightarrow> c \<in> set [CHR 0x09, CHR 0x0A, CHR 0x0B, CHR 0x0C, CHR 0x0D, CHR 0x20, CHR 0xA0]"

definition trim :: "string \<Rightarrow> string" where
  "trim x = rev (dropWhile whiteSpace (rev (dropWhile whiteSpace x)))"

record chat_window =
  cw_input :: string
  cw_attachments :: "Attachment list"

text \<open>
  \<open>handleSend\<close> (lines 50-59): the only caller of \<open>onSendMessage\<close>, which \<open>App\<close> binds
  to \<open>handleSendMessage\<close>. The \<open>loadingState\<close> is the prop \<open>App\<close> passes down.
\<close>

definition handleSend :: "remote \<Rightarrow> clock \<Rightarrow> chat_window \<Rightarrow> app_state \<Rightarrow> chat_window \<times> run" where
  "handleSend env now w s =
     (if (trim (cw_input w) = [] \<and> length (cw_attachments w) = 0) \<or> loadingState s \<noteq> IDLE
      then (w, start s)
      else (w\<lparr>cw_input := [], cw_attachments := []\<rparr>,
            handleSendMessage env now s (cw_input w) (cw_attachments w)))"

section \<open>Example inputs\<close>

text \<open>Remote services: one that rejects every request, one that answers with a text.\<close>

definition failingRemote :: remote where
  "failingRemote =
     \<lparr>sendMessage = (\<lambda>h p. Inl (Error ''network'')),
      generateImages = (\<lambda>p. Inl (Error ''network'')),
      sendFunctionResponse = (\<lambda>m. Inl (Error ''network''))\<rparr>"

definition textRemote :: "string \<Rightarrow> remote" where
  "textRemote t =
     \<lparr>sendMessage = (\<lambda>h p. Inr \<lparr>res_text = Some t, res_functionCalls = None\<rparr>),
      generateImages = (\<lambda>p. Inl (Error ''network'')),
      sendFunctionResponse = (\<lambda>m. Inl (Error ''network''))\<rparr>"

text \<open>
  A remote service that answers every message with one tool call of the given name, and
  whose image backend gives the given answer.
\<close>

definition toolCall :: "string \<Rightarrow> FunctionCall" where
  "toolCall nm = \<lparr>fc_name = nm, fc_args = Some [(''prompt'', ''a cat'')], fc_id = Some ''c1''\<rparr>"

definition toolResult :: "string \<Rightarrow> GenerateContentResponse" where
  "toolResult nm = \<lparr>res_text = Some ''One moment.'', res_functionCalls = Some [toolCall nm]\<rparr>"

definition toolRemote :: "string \<Rightarrow> (js_error + GenerateImagesResponse) \<Rightarrow> remote" where
  "toolRemote nm img =
     \<lparr>sendMessage = (\<lambda>h p. Inr (toolResult nm)),
      generateImages = (\<lambda>p. img),
      sendFunctionResponse =
        (\<lambda>m. Inr \<lparr>res_text = Some ''Here is your image.'', res_functionCalls = None\<rparr>)\<rparr>"

text \<open>Application states: a logged-in user with no session, or with sessions given.\<close>

definition guest :: User where
  "guest =
     \<lparr>usr_id = ''usr_guest'', usr_name = ''GUEST'', usr_email = ''guest@vairam.ai'',
      usr_avatarUrl = []\<rparr>"

definition freshApp :: app_state where
  "freshApp = \<lparr>user = Some guest, sessions = [], currentSessionId = None, loadingState = IDLE\<rparr>"

definition userMessage :: "string \<Rightarrow> string \<Rightarrow> Message" where
  "userMessage i c =
     \<lparr>msg_id = i, msg_role = UserRole, msg_content = c, msg_attachments = Some [],
      msg_timestamp = 0\<rparr>"

definition modelMessage :: "string \<Rightarrow> string \<Rightarrow> Message" where
  "modelMessage i c =
     \<lparr>msg_id = i, msg_role = ModelRole, msg_content = c, msg_attachments = Some [],
      msg_timestamp = 0\<rparr>"

definition chat :: "string \<Rightarrow> Message list \<Rightarrow> ChatSession" where
  "chat i ms = \<lparr>sess_id = i, sess_title = ''t'', sess_messages = ms, sess_createdAt = 0\<rparr>"

definition app :: "ChatSession list \<Rightarrow> string option \<Rightarrow> LoadingState \<Rightarrow> app_state" where
  "app ss cur l = \<lparr>user = Some guest, sessions = ss, currentSessionId = cur, loadingState = l\<rparr>"

text \<open>A historical message with no usable part: empty text and no attachment.\<close>

definition emptyTurn :: "Message \<Rightarrow> bool" where
  "emptyTurn m \<longleftrightarrow>
     msg_content m = [] \<and> (msg_attachments m = None \<or> msg_attachments m = Some [])"

section \<open>Auxiliary facts\<close>

lemmas run_defs = start_def setSessions_def setCurrentSessionId_def setLoadingState_def issued_def

lemmas service_defs = sendMessageToGemini_def sendMessageToGemini_try_def chatHistory_def
  currentParts_def handleFunctionCalls_def fallback_def

lemmas example_defs = failingRemote_def textRemote_def toolCall_def toolResult_def toolRemote_def
  guest_def freshApp_def userMessage_def modelMessage_def chat_def app_def

lemma show_nat_64: "show_nat 64 = ''64''"
  by code_simp

lemma show_nat_99: "show_nat 99 = ''99''"
  by code_simp

lemma show_nat_113: "show_nat 113 = ''113''"
  by code_simp

lemma currentParts_empty: "currentParts [] [] = []"
  by (simp add: currentParts_def)

lemma currentParts_nonempty: "txt \<noteq> [] \<or> atts \<noteq> [] \<Longrightarrow> currentParts txt atts \<noteq> []"
  by (auto simp: currentParts_def)

lemma empty_send_fails:
  "sendMessageToGemini env history [] [] =
     (Inl (Error ''Failed to get response from VAIRAM AI.''), [])"
  by (simp add: sendMessageToGemini_def sendMessageToGemini_try_def Let_def currentParts_empty)

text \<open>The first request of a turn carries the built history and the new parts.\<close>

lemma send_calls_head:
  "currentParts txt atts \<noteq> [] \<Longrightarrow>
   \<exists>rest. snd (sendMessageToGemini env history txt atts)
       = SendMessage (chatHistory history) (currentParts txt atts) # rest"
  by (auto simp: sendMessageToGemini_def sendMessageToGemini_try_def Let_def
      split: sum.splits prod.splits)

lemma chatHistory_append: "chatHistory (xs @ ys) = chatHistory xs @ chatHistory ys"
  by (simp add: chatHistory_def)

lemma chatHistory_Cons_empty:
  "emptyTurn m \<Longrightarrow>
   chatHistory (m # ys) = \<lparr>cnt_role = msg_role m, cnt_parts = []\<rparr> # chatHistory ys"
  by (auto simp: chatHistory_def emptyTurn_def)

text \<open>The loading states a send goes through, by the outcome of the service call.\<close>

lemma send_fail_loads:
  assumes "\<And>h. \<exists>err. fst (sendMessageToGemini env h content attachments) = Inl err"
  shows "run_loads (handleSendMessage env now s content attachments) = [THINKING, ERROR, IDLE]
       \<and> loadingState (run_state (handleSendMessage env now s content attachments)) = IDLE"
proof -
  obtain err calls where
    "sendMessageToGemini env (contextMessages now s content attachments) content attachments
       = (Inl err, calls)"
    using assms [of "contextMessages now s content attachments"]
    by (cases "sendMessageToGemini env (contextMessages now s content attachments) content attachments")
       auto
  then show ?thesis
    by (simp add: handleSendMessage_def handleError_def Let_def run_defs ensureSession_def)
qed

text \<open>\<open>findIndex\<close> returns the first position that satisfies the predicate.\<close>

lemma findIndex_first:
  "k < length xs \<Longrightarrow> p (xs ! k) \<Longrightarrow> \<forall>j<k. \<not> p (xs ! j) \<Longrightarrow> findIndex p xs = Some k"
proof (induction xs arbitrary: k)
  case Nil
  then show ?case by simp
next
  case (Cons x xs)
  show ?case
  proof (cases k)
    case 0
    with Cons.prems show ?thesis by simp
  next
    case (Suc k')
    with Cons.prems have "\<not> p x" by auto
    moreover have "findIndex p xs = Some k'"
      using Cons.prems Suc by (intro Cons.IH) auto
    ultimately show ?thesis using Suc by simp
  qed
qed

text \<open>An update of the sessions with one identifier, seen through \<open>find\<close>.\<close>

lemma find_map_update:
  assumes "find (\<lambda>x. sess_id x = sid) ss = Some cur"
    and "\<And>x. sess_id (f x) = sess_id x"
  shows "find (\<lambda>x. sess_id x = sid)
           (map (\<lambda>x. if Some (sess_id x) = Some sid then f x else x) ss) = Some (f cur)"
  using assms(1)
proof (induction ss)
  case Nil
  then show ?case by simp
next
  case (Cons a ss)
  then show ?case by (auto simp: assms(2) split: if_splits)
qed

lemma show_nat_160: "show_nat 160 = ''160''"
  by code_simp

lemma show_nat_220: "show_nat 220 = ''220''"
  by code_simp

text \<open>
  The state a send leaves when the service call returns an outcome: the loading states
  Thinking and Idle, and in every session with the active identifier the user message
  and then the model message built from the outcome.
\<close>

lemma send_ok_state:
  assumes "sendMessageToGemini env (contextMessages now s content attachments) content attachments
             = (Inr out, calls)"
  shows "run_loads (handleSendMessage env now s content attachments) = [THINKING, IDLE]"
    and "loadingState (run_state (handleSendMessage env now s content attachments)) = IDLE"
    and "sessions (run_state (handleSendMessage env now s content attachments))
           = map (\<lambda>x. if sess_id x = activeSessionId now s
                       then x\<lparr>sess_title := newTitle x content attachments,
                              sess_messages := sess_messages x
                                @ [newMessage now content attachments,
                                   botMessage (now 160) (now 164) out]\<rparr>
                       else x)
               (if truthy (currentSessionId s) then sessions s
                else \<lparr>sess_id = newChatId now, sess_title = ''New Conversation'',
                      sess_messages = [], sess_createdAt = now 104\<rparr> # sessions s)"
  using assms
  by (simp_all add: handleSendMessage_def Let_def run_defs ensureSession_def addUserMessage_def
      appendMessage_def o_def cong: if_cong)

text \<open>The same for an edit of the message at position \<open>k\<close> of the current session.\<close>

lemma edit_ok_state:
  assumes cur: "currentSessionId s = Some sid" "sid \<noteq> []"
    and found: "find (\<lambda>x. sess_id x = sid) (sessions s) = Some current"
    and k: "k < length (sess_messages current)"
    and first: "\<forall>j<k. msg_id (sess_messages current ! j) \<noteq> msg_id (sess_messages current ! k)"
    and res: "sendMessageToGemini env (take k (sess_messages current)) newContent
                (originalAttachments (sess_messages current ! k)) = (Inr out, calls)"
  shows "run_loads (handleEditMessage env now s (msg_id (sess_messages current ! k)) newContent)
           = [THINKING, IDLE]"
    and "loadingState (run_state
           (handleEditMessage env now s (msg_id (sess_messages current ! k)) newContent)) = IDLE"
    and "find (\<lambda>x. sess_id x = sid)
           (sessions (run_state
              (handleEditMessage env now s (msg_id (sess_messages current ! k)) newContent)))
           = Some (current\<lparr>sess_messages :=
                take k (sess_messages current)
                @ [updatedUserMessage now (sess_messages current ! k) newContent,
                   botMessage (now 220) (now 224) out]\<rparr>)"
proof -
  let ?msgs = "sess_messages current"
  let ?m = "?msgs ! k"
  let ?run = "handleEditMessage env now s (msg_id ?m) newContent"
  have idx: "findIndex (\<lambda>m. msg_id m = msg_id ?m) ?msgs = Some k"
    using k first by (intro findIndex_first) auto
  have found': "find (\<lambda>x. Some (sess_id x) = currentSessionId s) (sessions s) = Some current"
    using found cur by simp
  show "run_loads ?run = [THINKING, IDLE]"
    using cur idx found' res
    by (simp add: handleEditMessage_def truthy_def Let_def run_defs)
  show "loadingState (run_state ?run) = IDLE"
    using cur idx found' res
    by (simp add: handleEditMessage_def truthy_def Let_def run_defs)
  have final: "sessions (run_state ?run)
       = map (\<lambda>x. if Some (sess_id x) = Some sid
                   then x\<lparr>sess_messages :=
                          take k ?msgs @ [updatedUserMessage now ?m newContent,
                                          botMessage (now 220) (now 224) out]\<rparr>
                   else x) (sessions s)"
    using cur idx found' res
    by (simp add: handleEditMessage_def truthy_def Let_def run_defs appendMessage_def o_def
        cong: if_cong)
  show "find (\<lambda>x. sess_id x = sid) (sessions (run_state ?run))
      = Some (current\<lparr>sess_messages :=
                take k ?msgs @ [updatedUserMessage now ?m newContent,
                                botMessage (now 220) (now 224) out]\<rparr>)"
    unfolding final by (rule find_map_update [OF found]) simp
qed

text \<open>
  What \<open>sendMessageToGemini\<close> returns when the first tool call is \<open>generate_image\<close>
  and the image backend rejects the call or returns no image.
\<close>

lemma image_failure_outcome:
  assumes "content \<noteq> [] \<or> attachments \<noteq> []"
    and "sendMessage env (chatHistory history) (currentParts content attachments) = Inr result"
    and "res_functionCalls result = Some (call # rest)"
    and "fc_name call = ''generate_image''"
    and "fc_args call = Some args"
    and "case generateImages env (map_of args ''prompt'') of
           Inl err \<Rightarrow> True
         | Inr imageResponse \<Rightarrow>
             gir_generatedImages imageResponse = None \<or> gir_generatedImages imageResponse = Some []"
  shows "sendMessageToGemini env history content attachments
           = (Inr \<lparr>out_text =
                     (case generateImages env (map_of args ''prompt'') of
                        Inl err \<Rightarrow>
                          ''I apologize, but I encountered an error while attempting to generate the image.''
                      | Inr imageResponse \<Rightarrow>
                          ''I tried to generate an image, but no image was returned.''),
                   out_attachments = []\<rparr>,
              [SendMessage (chatHistory history) (currentParts content attachments),
               GenerateImages (map_of args ''prompt'')])"
  using currentParts_nonempty [OF assms(1)] assms(2-6)
  by (auto simp: sendMessageToGemini_def sendMessageToGemini_try_def fallback_def
      handleFunctionCalls_def Let_def split: sum.splits)

text \<open>The session selected after a deletion, read off the list before the deletion.\<close>

lemma head_of_filter:
  "(case filter p xs of [] \<Rightarrow> None | x # _ \<Rightarrow> Some (f x)) = map_option f (find p xs)"
  by (induction xs) auto

section \<open>The send path\<close>

text \<open>
  C1. The claim: every send issues its request with the session's messages as they stood
  before the optimistic append as history, and the new user message once, as the new
  turn. The code hands \<open>sendMessageToGemini\<close> the previous messages followed by the new
  message (\<open>contextMessages\<close>, lines 153-155) together with the new text and attachments,
  so the new message is in the built history and again in the new turn. The evaluation
  below is a send of the text "hi" into a session holding two messages: the history of the
  request has three turns, the last one the new message, and the new parts repeat it.
  The edit path (line 217) passes the messages before the edited one only.
\<close>

theorem send_history_repeats_new_message:
  "run_calls (handleSendMessage (textRemote ''yo'') (\<lambda>l. l)
       (app [chat ''chat_1'' [userMessage ''m1'' ''a'', modelMessage ''m2'' ''b'']]
          (Some ''chat_1'') IDLE) ''hi'' [])
   = [SendMessage
        [\<lparr>cnt_role = UserRole, cnt_parts = [Text ''a'']\<rparr>,
         \<lparr>cnt_role = ModelRole, cnt_parts = [Text ''b'']\<rparr>,
         \<lparr>cnt_role = UserRole, cnt_parts = [Text ''hi'']\<rparr>]
        [Text ''hi'']]"
  by (simp add: handleSendMessage_def Let_def run_defs ensureSession_def contextMessages_def
      activeSessionId_def truthy_def newMessage_def example_defs service_defs)

text \<open>
  In general: the first request of a send has as history the turns of the session's
  previous messages followed by the turn of the new message, and the new parts.
\<close>

lemma send_request:
  assumes "content \<noteq> [] \<or> attachments \<noteq> []"
  shows "\<exists>more. run_calls (handleSendMessage env now s content attachments)
           = SendMessage
               (chatHistory
                  ((case find (\<lambda>x. sess_id x = activeSessionId now s) (sessions s) of
                      Some x \<Rightarrow> sess_messages x | None \<Rightarrow> [])
                   @ [newMessage now content attachments]))
               (currentParts content attachments) # more"
proof -
  let ?ctx = "contextMessages now s content attachments"
  obtain res calls where res: "sendMessageToGemini env ?ctx content attachments = (res, calls)"
    by (cases "sendMessageToGemini env ?ctx content attachments")
  from send_calls_head [OF currentParts_nonempty [OF assms], of env ?ctx] res
  obtain more where "calls = SendMessage (chatHistory ?ctx) (currentParts content attachments) # more"
    by auto
  with res have "run_calls (handleSendMessage env now s content attachments)
      = SendMessage (chatHistory ?ctx) (currentParts content attachments) # more"
    by (cases res) (simp_all add: handleSendMessage_def handleError_def Let_def run_defs ensureSession_def)
  then show ?thesis
    by (auto simp: contextMessages_def Let_def)
qed

text \<open>
  C2. The claim: a send whose remote call fails goes through Thinking, Error and back to
  Idle, and appends exactly one model message with the apology text. \<open>handleError\<close>
  appends the apology to the sessions whose identifier is the \<open>currentSessionId\<close> of
  the closure. When the send started with no session selected, that value is \<open>null\<close>
  although the send created a session and put the user message into it: the evaluation
  below shows the session left with the user message alone, no apology appended, after
  the loading states Thinking, Error, Idle.
\<close>

theorem send_failure_without_session_appends_no_apology:
  "sessions (run_state (handleSendMessage failingRemote (\<lambda>l. l) freshApp ''hi'' []))
     = [\<lparr>sess_id = ''chat_99'', sess_title = ''hi'',
         sess_messages =
           [\<lparr>msg_id = ''msg_113_u'', msg_role = UserRole, msg_content = ''hi'',
             msg_attachments = Some [], msg_timestamp = 117\<rparr>],
         sess_createdAt = 104\<rparr>]
   \<and> run_loads (handleSendMessage failingRemote (\<lambda>l. l) freshApp ''hi'' [])
       = [THINKING, ERROR, IDLE]"
  by (simp add: handleSendMessage_def handleError_def Let_def run_defs ensureSession_def
      contextMessages_def activeSessionId_def truthy_def newMessage_def newChatId_def
      addUserMessage_def newTitle_def appendMessage_def show_nat_99 show_nat_113
      example_defs service_defs)

text \<open>
  With a session selected, the same failure appends the apology to it: the sessions left
  are those of the optimistic update with \<open>errorMessage\<close> appended to the selected one.
\<close>

lemma send_failure_with_session:
  assumes "currentSessionId s = Some sid" and "sid \<noteq> []"
    and "\<And>h. \<exists>err. fst (sendMessageToGemini env h content attachments) = Inl err"
  shows "sessions (run_state (handleSendMessage env now s content attachments))
           = appendMessage (Some sid) (errorMessage now)
               (addUserMessage now s content attachments (sessions s))"
proof -
  obtain err calls where
    "sendMessageToGemini env (contextMessages now s content attachments) content attachments
       = (Inl err, calls)"
    using assms(3) [of "contextMessages now s content attachments"]
    by (cases "sendMessageToGemini env (contextMessages now s content attachments) content attachments")
       auto
  then show ?thesis
    using assms(1,2)
    by (simp add: handleSendMessage_def handleError_def Let_def run_defs ensureSession_def truthy_def)
qed

text \<open>
  C3. When the remote answer asks for the tool \<open>generate_image\<close> (with its arguments)
  and the image backend rejects the call or returns no image, \<open>sendMessageToGemini\<close>
  returns normally after the first request and the image request: the text is the fixed
  string of the inner \<open>catch\<close> (backend rejection) or of the \<open>else\<close> branch (no
  image), and there are no attachments. A send with that outcome goes through Thinking to
  Idle, never Error, and leaves in the active session the user message followed by a
  model message with that text and an empty attachment list. An edit with that outcome
  goes through Thinking to Idle as well and leaves the current session with the messages
  before the edited one, the edited message, and that model message.
\<close>

theorem image_failure_recovered:
  assumes parts: "content \<noteq> [] \<or> attachments \<noteq> []"
    and answer: "sendMessage env (chatHistory history) (currentParts content attachments) = Inr result"
    and calls: "res_functionCalls result = Some (call # rest)"
    and name: "fc_name call = ''generate_image''"
    and args: "fc_args call = Some args"
    and failure:
      "case generateImages env (map_of args ''prompt'') of
         Inl err \<Rightarrow> True
       | Inr imageResponse \<Rightarrow>
           gir_generatedImages imageResponse = None \<or> gir_generatedImages imageResponse = Some []"
    and apology:
      "apology =
         (case generateImages env (map_of args ''prompt'') of
            Inl err \<Rightarrow>
              ''I apologize, but I encountered an error while attempting to generate the image.''
          | Inr imageResponse \<Rightarrow> ''I tried to generate an image, but no image was returned.'')"
  shows "sendMessageToGemini env history content attachments
           = (Inr \<lparr>out_text = apology, out_attachments = []\<rparr>,
              [SendMessage (chatHistory history) (currentParts content attachments),
               GenerateImages (map_of args ''prompt'')])
       \<and> (history = contextMessages now s content attachments \<longrightarrow>
            run_loads (handleSendMessage env now s content attachments) = [THINKING, IDLE]
          \<and> loadingState (run_state (handleSendMessage env now s content attachments)) = IDLE
          \<and> sessions (run_state (handleSendMessage env now s content attachments))
              = map (\<lambda>x. if sess_id x = activeSessionId now s
                          then x\<lparr>sess_title := newTitle x content attachments,
                                 sess_messages := sess_messages x
                                   @ [newMessage now content attachments,
                                      \<lparr>msg_id = ''msg_'' @ show_nat (now 160) @ ''_b'',
                                       msg_role = ModelRole,
                                       msg_content = apology,
                                       msg_attachments = Some [],
                                       msg_timestamp = now 164\<rparr>]\<rparr>
                          else x)
                  (if truthy (currentSessionId s) then sessions s
                   else \<lparr>sess_id = newChatId now, sess_title = ''New Conversation'',
                         sess_messages = [], sess_createdAt = now 104\<rparr> # sessions s))
       \<and> (currentSessionId s = Some sid \<and> sid \<noteq> []
            \<and> find (\<lambda>x. sess_id x = sid) (sessions s) = Some current
            \<and> k < length (sess_messages current)
            \<and> (\<forall>j<k. msg_id (sess_messages current ! j) \<noteq> msg_id (sess_messages current ! k))
            \<and> history = take k (sess_messages current)
            \<and> attachments = originalAttachments (sess_messages current ! k) \<longrightarrow>
            run_loads (handleEditMessage env now s (msg_id (sess_messages current ! k)) content)
              = [THINKING, IDLE]
          \<and> loadingState (run_state
               (handleEditMessage env now s (msg_id (sess_messages current ! k)) content)) = IDLE
          \<and> find (\<lambda>x. sess_id x = sid)
               (sessions (run_state
                  (handleEditMessage env now s (msg_id (sess_messages current ! k)) content)))
              = Some (current\<lparr>sess_messages :=
                   take k (sess_messages current)
                   @ [updatedUserMessage now (sess_messages current ! k) content,
                      \<lparr>msg_id = ''msg_'' @ show_nat (now 220) @ ''_b'',
                       msg_role = ModelRole,
                       msg_content = apology,
                       msg_attachments = Some [],
                       msg_timestamp = now 224\<rparr>]\<rparr>))"
proof -
  let ?out = "\<lparr>out_text = apology, out_attachments = []\<rparr>"
  let ?calls = "[SendMessage (chatHistory history) (currentParts content attachments),
                 GenerateImages (map_of args ''prompt'')]"
  have svc: "sendMessageToGemini env history content attachments = (Inr ?out, ?calls)"
    using image_failure_outcome [OF parts answer calls name args failure] apology by simp
  have send: "run_loads (handleSendMessage env now s content attachments) = [THINKING, IDLE]
          \<and> loadingState (run_state (handleSendMessage env now s content attachments)) = IDLE
          \<and> sessions (run_state (handleSendMessage env now s content attachments))
              = map (\<lambda>x. if sess_id x = activeSessionId now s
                          then x\<lparr>sess_title := newTitle x content attachments,
                                 sess_messages := sess_messages x
                                   @ [newMessage now content attachments,
                                      \<lparr>msg_id = ''msg_'' @ show_nat (now 160) @ ''_b'',
                                       msg_role = ModelRole,
                                       msg_content = apology,
                                       msg_attachments = Some [],
                                       msg_timestamp = now 164\<rparr>]\<rparr>
                          else x)
                  (if truthy (currentSessionId s) then sessions s
                   else \<lparr>sess_id = newChatId now, sess_title = ''New Conversation'',
                         sess_messages = [], sess_createdAt = now 104\<rparr> # sessions s)"
    if h: "history = contextMessages now s content attachments"
  proof -
    from svc h have r: "sendMessageToGemini env (contextMessages now s content attachments)
        content attachments = (Inr ?out, ?calls)" by simp
    have b: "botMessage (now 160) (now 164) ?out
         = \<lparr>msg_id = ''msg_'' @ show_nat (now 160) @ ''_b'', msg_role = ModelRole,
            msg_content = apology, msg_attachments = Some [], msg_timestamp = now 164\<rparr>"
      by (simp add: botMessage_def)
    from send_ok_state [OF r] show ?thesis unfolding b by blast
  qed
  have edit: "run_loads (handleEditMessage env now s (msg_id (sess_messages current ! k)) content)
              = [THINKING, IDLE]
          \<and> loadingState (run_state
               (handleEditMessage env now s (msg_id (sess_messages current ! k)) content)) = IDLE
          \<and> find (\<lambda>x. sess_id x = sid)
               (sessions (run_state
                  (handleEditMessage env now s (msg_id (sess_messages current ! k)) content)))
              = Some (current\<lparr>sess_messages :=
                   take k (sess_messages current)
                   @ [updatedUserMessage now (sess_messages current ! k) content,
                      \<lparr>msg_id = ''msg_'' @ show_nat (now 220) @ ''_b'',
                       msg_role = ModelRole,
                       msg_content = apology,
                       msg_attachments = Some [],
                       msg_timestamp = now 224\<rparr>]\<rparr>)"
    if h: "currentSessionId s = Some sid" "sid \<noteq> []"
          "find (\<lambda>x. sess_id x = sid) (sessions s) = Some current"
          "k < length (sess_messages current)"
          "\<forall>j<k. msg_id (sess_messages current ! j) \<noteq> msg_id (sess_messages current ! k)"
          "history = take k (sess_messages current)"
          "attachments = originalAttachments (sess_messages current ! k)"
  proof -
    from svc h(6,7) have r: "sendMessageToGemini env (take k (sess_messages current)) content
        (originalAttachments (sess_messages current ! k)) = (Inr ?out, ?calls)" by simp
    have b: "botMessage (now 220) (now 224) ?out
         = \<lparr>msg_id = ''msg_'' @ show_nat (now 220) @ ''_b'', msg_role = ModelRole,
            msg_content = apology, msg_attachments = Some [], msg_timestamp = now 224\<rparr>"
      by (simp add: botMessage_def)
    from edit_ok_state [OF h(1-5) r, of now] show ?thesis unfolding b by blast
  qed
  from svc send edit show ?thesis by blast
qed

theorem image_failure_recovered_witness:
  "sendMessageToGemini (toolRemote ''generate_image'' (Inr \<lparr>gir_generatedImages = Some []\<rparr>))
       (contextMessages (\<lambda>l. l) freshApp ''draw a cat'' []) ''draw a cat'' []
     = (Inr \<lparr>out_text = ''I tried to generate an image, but no image was returned.'',
             out_attachments = []\<rparr>,
        [SendMessage [\<lparr>cnt_role = UserRole, cnt_parts = [Text ''draw a cat'']\<rparr>]
           [Text ''draw a cat''],
         GenerateImages (Some ''a cat'')])
   \<and> run_loads (handleSendMessage
          (toolRemote ''generate_image'' (Inr \<lparr>gir_generatedImages = Some []\<rparr>)) (\<lambda>l. l) freshApp
          ''draw a cat'' []) = [THINKING, IDLE]
   \<and> loadingState (run_state (handleSendMessage
          (toolRemote ''generate_image'' (Inr \<lparr>gir_generatedImages = Some []\<rparr>)) (\<lambda>l. l) freshApp
          ''draw a cat'' [])) = IDLE
   \<and> sessions (run_state (handleSendMessage
          (toolRemote ''generate_image'' (Inr \<lparr>gir_generatedImages = Some []\<rparr>)) (\<lambda>l. l) freshApp
          ''draw a cat'' []))
       = [\<lparr>sess_id = ''chat_99'', sess_title = ''draw a cat'',
           sess_messages =
             [\<lparr>msg_id = ''msg_113_u'', msg_role = UserRole, msg_content = ''draw a cat'',
               msg_attachments = Some [], msg_timestamp = 117\<rparr>,
              \<lparr>msg_id = ''msg_160_b'', msg_role = ModelRole,
               msg_content = ''I tried to generate an image, but no image was returned.'',
               msg_attachments = Some [], msg_timestamp = 164\<rparr>],
           sess_createdAt = 104\<rparr>]
   \<and> run_loads (handleEditMessage (toolRemote ''generate_image'' (Inl (Error ''quota'')))
          (\<lambda>l. l)
          (app [chat ''chat_1'' [userMessage ''m1'' ''draw a cat'', modelMessage ''m2'' ''b'']]
             (Some ''chat_1'') IDLE)
          ''m1'' ''draw a dog'') = [THINKING, IDLE]
   \<and> find (\<lambda>x. sess_id x = ''chat_1'')
        (sessions (run_state (handleEditMessage
           (toolRemote ''generate_image'' (Inl (Error ''quota''))) (\<lambda>l. l)
           (app [chat ''chat_1'' [userMessage ''m1'' ''draw a cat'', modelMessage ''m2'' ''b'']]
              (Some ''chat_1'') IDLE)
           ''m1'' ''draw a dog'')))
       = Some (chat ''chat_1''
           [(userMessage ''m1'' ''draw a dog'')\<lparr>msg_timestamp := 200\<rparr>,
            \<lparr>msg_id = ''msg_220_b'', msg_role = ModelRole,
             msg_content =
               ''I apologize, but I encountered an error while attempting to generate the image.'',
             msg_attachments = Some [], msg_timestamp = 224\<rparr>])"
proof -
  let ?none = "toolRemote ''generate_image'' (Inr \<lparr>gir_generatedImages = Some []\<rparr>)"
  let ?fail = "toolRemote ''generate_image'' (Inl (Error ''quota''))"
  let ?call = "toolCall ''generate_image''"
  let ?ms = "[userMessage ''m1'' ''draw a cat'', modelMessage ''m2'' ''b'']"
  let ?s = "app [chat ''chat_1'' ?ms] (Some ''chat_1'') IDLE"
  have p1: "''draw a cat'' \<noteq> [] \<or> ([]::Attachment list) \<noteq> []" by simp
  have p2: "''draw a dog'' \<noteq> [] \<or> ([]::Attachment list) \<noteq> []" by simp
  have a1: "sendMessage ?none (chatHistory (contextMessages (\<lambda>l. l) freshApp ''draw a cat'' []))
              (currentParts ''draw a cat'' []) = Inr (toolResult ''generate_image'')"
    by (simp add: toolRemote_def)
  have a2: "sendMessage ?fail (chatHistory []) (currentParts ''draw a dog'' [])
              = Inr (toolResult ''generate_image'')"
    by (simp add: toolRemote_def)
  have c: "res_functionCalls (toolResult ''generate_image'') = Some (?call # [])"
    by (simp add: toolResult_def)
  have n: "fc_name ?call = ''generate_image''" by (simp add: toolCall_def)
  have g: "fc_args ?call = Some [(''prompt'', ''a cat'')]" by (simp add: toolCall_def)
  have f1: "case generateImages ?none (map_of [(''prompt'', ''a cat'')] ''prompt'') of
              Inl err \<Rightarrow> True
            | Inr imageResponse \<Rightarrow>
                gir_generatedImages imageResponse = None \<or> gir_generatedImages imageResponse = Some []"
    by (simp add: toolRemote_def)
  have f2: "case generateImages ?fail (map_of [(''prompt'', ''a cat'')] ''prompt'') of
              Inl err \<Rightarrow> True
            | Inr imageResponse \<Rightarrow>
                gir_generatedImages imageResponse = None \<or> gir_generatedImages imageResponse = Some []"
    by (simp add: toolRemote_def)
  have t1: "''I tried to generate an image, but no image was returned.'' =
         (case generateImages ?none (map_of [(''prompt'', ''a cat'')] ''prompt'') of
            Inl err \<Rightarrow>
              ''I apologize, but I encountered an error while attempting to generate the image.''
          | Inr imageResponse \<Rightarrow> ''I tried to generate an image, but no image was returned.'')"
    by (simp add: toolRemote_def)
  have t2: "''I apologize, but I encountered an error while attempting to generate the image.'' =
         (case generateImages ?fail (map_of [(''prompt'', ''a cat'')] ''prompt'') of
            Inl err \<Rightarrow>
              ''I apologize, but I encountered an error while attempting to generate the image.''
          | Inr imageResponse \<Rightarrow> ''I tried to generate an image, but no image was returned.'')"
    by (simp add: toolRemote_def)
  have ctx: "contextMessages (\<lambda>l. l) freshApp ''draw a cat'' []
               = [\<lparr>msg_id = ''msg_113_u'', msg_role = UserRole, msg_content = ''draw a cat'',
                   msg_attachments = Some [], msg_timestamp = 117\<rparr>]"
    by (simp add: contextMessages_def freshApp_def newMessage_def show_nat_113)
  have e1: "currentSessionId ?s = Some ''chat_1''" by (simp add: app_def)
  have e2: "''chat_1'' \<noteq> []" by simp
  have e3: "find (\<lambda>x. sess_id x = ''chat_1'') (sessions ?s) = Some (chat ''chat_1'' ?ms)"
    by (simp add: app_def chat_def)
  have e4: "0 < length (sess_messages (chat ''chat_1'' ?ms))" by (simp add: chat_def)
  have e5: "\<forall>j<0. msg_id (sess_messages (chat ''chat_1'' ?ms) ! j)
                 \<noteq> msg_id (sess_messages (chat ''chat_1'' ?ms) ! 0)" by simp
  have e6: "[] = take 0 (sess_messages (chat ''chat_1'' ?ms))" by simp
  have e7: "[] = originalAttachments (sess_messages (chat ''chat_1'' ?ms) ! 0)"
    by (simp add: chat_def userMessage_def originalAttachments_def)
  have m1: "msg_id (sess_messages (chat ''chat_1'' ?ms) ! 0) = ''m1''"
    by (simp add: chat_def userMessage_def)
  note send = image_failure_recovered [OF p1 a1 c n g f1 t1,
      of "\<lambda>l. l" freshApp "''x''" "chat ''x'' []" 0]
  note edit = image_failure_recovered [OF p2 a2 c n g f2 t2,
      of "\<lambda>l. l" ?s "''chat_1''" "chat ''chat_1'' ?ms" 0]
  from send have s1: "sendMessageToGemini ?none
       (contextMessages (\<lambda>l. l) freshApp ''draw a cat'' []) ''draw a cat'' []
     = (Inr \<lparr>out_text = ''I tried to generate an image, but no image was returned.'',
             out_attachments = []\<rparr>,
        [SendMessage [\<lparr>cnt_role = UserRole, cnt_parts = [Text ''draw a cat'']\<rparr>]
           [Text ''draw a cat''],
         GenerateImages (Some ''a cat'')])"
    by (simp add: ctx chatHistory_def currentParts_def)
  from send have s2: "run_loads (handleSendMessage ?none (\<lambda>l. l) freshApp ''draw a cat'' [])
        = [THINKING, IDLE]
     \<and> loadingState (run_state (handleSendMessage ?none (\<lambda>l. l) freshApp ''draw a cat'' [])) = IDLE"
    by blast
  from send have "sessions (run_state (handleSendMessage ?none (\<lambda>l. l) freshApp ''draw a cat'' []))
      = map (\<lambda>x. if sess_id x = activeSessionId (\<lambda>l. l) freshApp
                          then x\<lparr>sess_title := newTitle x ''draw a cat'' [],
                                 sess_messages := sess_messages x
                                   @ [newMessage (\<lambda>l. l) ''draw a cat'' [],
                                      \<lparr>msg_id = ''msg_'' @ show_nat 160 @ ''_b'',
                                       msg_role = ModelRole,
                                       msg_content = ''I tried to generate an image, but no image was returned.'',
                                       msg_attachments = Some [],
                                       msg_timestamp = 164\<rparr>]\<rparr>
                          else x)
                  (if truthy (currentSessionId freshApp) then sessions freshApp
                   else \<lparr>sess_id = newChatId (\<lambda>l. l), sess_title = ''New Conversation'',
                         sess_messages = [], sess_createdAt = 104\<rparr> # sessions freshApp)"
    by blast
  then have s3: "sessions (run_state (handleSendMessage ?none (\<lambda>l. l) freshApp ''draw a cat'' []))
       = [\<lparr>sess_id = ''chat_99'', sess_title = ''draw a cat'',
           sess_messages =
             [\<lparr>msg_id = ''msg_113_u'', msg_role = UserRole, msg_content = ''draw a cat'',
               msg_attachments = Some [], msg_timestamp = 117\<rparr>,
              \<lparr>msg_id = ''msg_160_b'', msg_role = ModelRole,
               msg_content = ''I tried to generate an image, but no image was returned.'',
               msg_attachments = Some [], msg_timestamp = 164\<rparr>],
           sess_createdAt = 104\<rparr>]"
    by (simp add: freshApp_def truthy_def activeSessionId_def newChatId_def newTitle_def
        newMessage_def show_nat_99 show_nat_113 show_nat_160)
  from edit e1 e2 e3 e4 e5 e6 e7
  have "run_loads (handleEditMessage ?fail (\<lambda>l. l) ?s
            (msg_id (sess_messages (chat ''chat_1'' ?ms) ! 0)) ''draw a dog'') = [THINKING, IDLE]
     \<and> find (\<lambda>x. sess_id x = ''chat_1'')
        (sessions (run_state (handleEditMessage ?fail (\<lambda>l. l) ?s
            (msg_id (sess_messages (chat ''chat_1'' ?ms) ! 0)) ''draw a dog'')))
       = Some ((chat ''chat_1'' ?ms)\<lparr>sess_messages :=
                   take 0 (sess_messages (chat ''chat_1'' ?ms))
                   @ [updatedUserMessage (\<lambda>l. l) (sess_messages (chat ''chat_1'' ?ms) ! 0) ''draw a dog'',
                      \<lparr>msg_id = ''msg_'' @ show_nat 220 @ ''_b'',
                       msg_role = ModelRole,
                       msg_content = ''I apologize, but I encountered an error while attempting to generate the image.'',
                       msg_attachments = Some [],
                       msg_timestamp = 224\<rparr>]\<rparr>)"
    by blast
  then have s4: "run_loads (handleEditMessage ?fail (\<lambda>l. l) ?s ''m1'' ''draw a dog'') = [THINKING, IDLE]
     \<and> find (\<lambda>x. sess_id x = ''chat_1'')
        (sessions (run_state (handleEditMessage ?fail (\<lambda>l. l) ?s ''m1'' ''draw a dog'')))
       = Some (chat ''chat_1''
           [(userMessage ''m1'' ''draw a dog'')\<lparr>msg_timestamp := 200\<rparr>,
            \<lparr>msg_id = ''msg_220_b'', msg_role = ModelRole,
             msg_content =
               ''I apologize, but I encountered an error while attempting to generate the image.'',
             msg_attachments = Some [], msg_timestamp = 224\<rparr>])"
    unfolding m1
    by (simp add: chat_def userMessage_def modelMessage_def updatedUserMessage_def
        originalAttachments_def show_nat_220)
  from s1 s2 s3 s4 show ?thesis by blast
qed

text \<open>
  C4. The claim: a send with empty text and no attachment fails in the builder before
  any remote call, and the loading state remains Idle. In \<open>handleSendMessage\<close> the
  loading state is set to Thinking before the request is built (line 146), and the
  builder's error is handled like any failure of the turn: from an Idle state the
  loading state is set to Thinking, Error and Idle.
\<close>

theorem empty_send_counterexample:
  "loadingState (app [chat ''chat_1'' []] (Some ''chat_1'') IDLE) = IDLE
   \<and> run_loads (handleSendMessage (textRemote ''yo'') (\<lambda>l. l)
        (app [chat ''chat_1'' []] (Some ''chat_1'') IDLE) [] []) = [THINKING, ERROR, IDLE]"
  using send_fail_loads [of "textRemote ''yo''" "[]" "[]" "\<lambda>l. l"
      "app [chat ''chat_1'' []] (Some ''chat_1'') IDLE"]
  by (simp add: empty_send_fails app_def)

text \<open>
  C4, as the code has it. With empty text and no attachment the body of
  \<open>sendMessageToGemini\<close> throws "Message cannot be empty" before any request, the
  function rejects with its fixed error and no request is issued; \<open>handleSendMessage\<close>
  issues no request, sets the loading state to Thinking, Error, Idle and leaves it Idle.
  The send affordance \<open>handleSend\<close> of the chat window rejects such an input before
  \<open>handleSendMessage\<close> is called: there nothing changes and the loading state remains
  as it was.
\<close>

theorem empty_send_rejected:
  "sendMessageToGemini_try env history [] [] = (Inl (Error ''Message cannot be empty''), [])
   \<and> sendMessageToGemini env history [] []
       = (Inl (Error ''Failed to get response from VAIRAM AI.''), [])
   \<and> run_calls (handleSendMessage env now s [] []) = []
   \<and> run_loads (handleSendMessage env now s [] []) = [THINKING, ERROR, IDLE]
   \<and> loadingState (run_state (handleSendMessage env now s [] [])) = IDLE
   \<and> handleSend env now \<lparr>cw_input = [], cw_attachments = []\<rparr> s
        = (\<lparr>cw_input = [], cw_attachments = []\<rparr>,
           \<lparr>run_state = s, run_loads = [], run_calls = []\<rparr>)"
proof -
  have a: "sendMessageToGemini_try env history [] [] = (Inl (Error ''Message cannot be empty''), [])"
    by (simp add: sendMessageToGemini_try_def Let_def currentParts_empty)
  have b: "run_calls (handleSendMessage env now s [] []) = []"
    by (simp add: handleSendMessage_def Let_def empty_send_fails handleError_def run_defs
        ensureSession_def)
  have c: "run_loads (handleSendMessage env now s [] []) = [THINKING, ERROR, IDLE]
       \<and> loadingState (run_state (handleSendMessage env now s [] [])) = IDLE"
    by (rule send_fail_loads) (simp add: empty_send_fails)
  have d: "handleSend env now \<lparr>cw_input = [], cw_attachments = []\<rparr> s
        = (\<lparr>cw_input = [], cw_attachments = []\<rparr>,
           \<lparr>run_state = s, run_loads = [], run_calls = []\<rparr>)"
    by (simp add: handleSend_def trim_def start_def)
  from a b c d empty_send_fails show ?thesis by blast
qed

theorem empty_send_rejected_witness:
  "run_calls (handleSendMessage failingRemote (\<lambda>l. l) freshApp [] []) = []
   \<and> run_loads (handleSendMessage failingRemote (\<lambda>l. l) freshApp [] []) = [THINKING, ERROR, IDLE]
   \<and> handleSend failingRemote (\<lambda>l. l) \<lparr>cw_input = [], cw_attachments = []\<rparr> freshApp
        = (\<lparr>cw_input = [], cw_attachments = []\<rparr>,
           \<lparr>run_state = freshApp, run_loads = [], run_calls = []\<rparr>)"
  using empty_send_rejected [of failingRemote "[]" "\<lambda>l. l" freshApp]
  by simp

text \<open>
  C6. While the loading state is not Idle, the send affordance \<open>handleSend\<close> returns
  at once: the window and the application state are unchanged (no session created or
  changed, no message appended), the loading state is not set and no request is issued.
  The guard reads the loading state of the render, the one \<open>App\<close> passes down.
\<close>

theorem send_gated_while_loading:
  "loadingState s \<noteq> IDLE \<Longrightarrow>
     handleSend env now w s = (w, \<lparr>run_state = s, run_loads = [], run_calls = []\<rparr>)"
  by (simp add: handleSend_def start_def)

theorem send_gated_while_loading_witness:
  "loadingState (app [chat ''chat_1'' []] (Some ''chat_1'') THINKING) \<noteq> IDLE
   \<and> handleSend (textRemote ''yo'') (\<lambda>l. l) \<lparr>cw_input = ''hi'', cw_attachments = []\<rparr>
       (app [chat ''chat_1'' []] (Some ''chat_1'') THINKING)
     = (\<lparr>cw_input = ''hi'', cw_attachments = []\<rparr>,
        \<lparr>run_state = app [chat ''chat_1'' []] (Some ''chat_1'') THINKING,
         run_loads = [], run_calls = []\<rparr>)"
  using send_gated_while_loading [of "app [chat ''chat_1'' []] (Some ''chat_1'') THINKING"
      "textRemote ''yo''" "\<lambda>l. l" "\<lparr>cw_input = ''hi'', cw_attachments = []\<rparr>"]
  by (simp add: app_def)

section \<open>The edit path\<close>

text \<open>
  C5. Editing the message at position \<open>k\<close> of the current session (the first message
  with its identifier, which is what \<open>findIndex\<close> locates) leaves the session with the
  messages before \<open>k\<close> unchanged, then the edited message with the new content and
  timestamp and its attachments kept (\<open>attachments || []\<close>: an absent list is kept as
  the empty list), then the model message of the new turn. The messages that stood after
  position \<open>k\<close> are gone.
\<close>

theorem edit_replaces_and_truncates:
  assumes cur: "currentSessionId s = Some sid" "sid \<noteq> []"
    and found: "find (\<lambda>x. sess_id x = sid) (sessions s) = Some current"
    and k: "k < length (sess_messages current)"
    and first: "\<forall>j<k. msg_id (sess_messages current ! j) \<noteq> msg_id (sess_messages current ! k)"
  shows "\<exists>reply. msg_role reply = ModelRole \<and>
           find (\<lambda>x. sess_id x = sid)
             (sessions (run_state
                (handleEditMessage env now s (msg_id (sess_messages current ! k)) newContent)))
           = Some (current\<lparr>sess_messages :=
                take k (sess_messages current)
                @ [(sess_messages current ! k)
                     \<lparr>msg_content := newContent,
                      msg_timestamp := now 200,
                      msg_attachments :=
                        Some (case msg_attachments (sess_messages current ! k) of
                                None \<Rightarrow> [] | Some a \<Rightarrow> a)\<rparr>]
                @ [reply]\<rparr>)"
proof -
  let ?msgs = "sess_messages current"
  let ?m = "?msgs ! k"
  let ?upd = "updatedUserMessage now ?m newContent"
  have idx: "findIndex (\<lambda>m. msg_id m = msg_id ?m) ?msgs = Some k"
    using k first by (intro findIndex_first) auto
  have found': "find (\<lambda>x. Some (sess_id x) = currentSessionId s) (sessions s) = Some current"
    using found cur by simp
  obtain res calls where res:
    "sendMessageToGemini env (take k ?msgs) newContent (originalAttachments ?m) = (res, calls)"
    by (cases "sendMessageToGemini env (take k ?msgs) newContent (originalAttachments ?m)")
  define reply where
    "reply = (case res of Inr out \<Rightarrow> botMessage (now 220) (now 224) out | Inl err \<Rightarrow> errorMessage now)"
  have role: "msg_role reply = ModelRole"
    by (simp add: reply_def botMessage_def errorMessage_def split: sum.splits)
  have final: "sessions (run_state (handleEditMessage env now s (msg_id ?m) newContent))
       = map (\<lambda>x. if Some (sess_id x) = Some sid
                   then x\<lparr>sess_messages := take k ?msgs @ [?upd] @ [reply]\<rparr> else x) (sessions s)"
    using cur idx found' res
    by (cases res)
       (simp_all add: handleEditMessage_def truthy_def Let_def run_defs handleError_def
          appendMessage_def reply_def o_def cong: if_cong)
  have "find (\<lambda>x. sess_id x = sid)
          (sessions (run_state (handleEditMessage env now s (msg_id ?m) newContent)))
      = Some (current\<lparr>sess_messages := take k ?msgs @ [?upd] @ [reply]\<rparr>)"
    unfolding final by (rule find_map_update [OF found]) simp
  with role show ?thesis
    by (auto simp: updatedUserMessage_def originalAttachments_def)
qed

theorem edit_replaces_and_truncates_witness:
  "\<exists>reply. msg_role reply = ModelRole \<and>
     find (\<lambda>x. sess_id x = ''chat_1'')
       (sessions (run_state
          (handleEditMessage (textRemote ''yo'') (\<lambda>l. l)
             (app [chat ''chat_1''
                     [userMessage ''m1'' ''a'', modelMessage ''m2'' ''b'',
                      userMessage ''m3'' ''c'', modelMessage ''m4'' ''d'']]
                (Some ''chat_1'') IDLE)
             ''m3'' ''C'')))
     = Some (chat ''chat_1''
               [userMessage ''m1'' ''a'', modelMessage ''m2'' ''b'',
                (userMessage ''m3'' ''C'')\<lparr>msg_timestamp := 200\<rparr>, reply])"
proof -
  let ?ms = "[userMessage ''m1'' ''a'', modelMessage ''m2'' ''b'',
              userMessage ''m3'' ''c'', modelMessage ''m4'' ''d'']"
  let ?s = "app [chat ''chat_1'' ?ms] (Some ''chat_1'') IDLE"
  have h1: "currentSessionId ?s = Some ''chat_1''" by (simp add: app_def)
  have h2: "''chat_1'' \<noteq> []" by simp
  have h3: "find (\<lambda>x. sess_id x = ''chat_1'') (sessions ?s) = Some (chat ''chat_1'' ?ms)"
    by (simp add: app_def chat_def)
  have h4: "2 < length (sess_messages (chat ''chat_1'' ?ms))" by (simp add: chat_def)
  have h5: "\<forall>j<2. msg_id (sess_messages (chat ''chat_1'' ?ms) ! j)
                 \<noteq> msg_id (sess_messages (chat ''chat_1'' ?ms) ! 2)"
    by (simp add: chat_def userMessage_def modelMessage_def less_Suc_eq numeral_2_eq_2)
  from edit_replaces_and_truncates [OF h1 h2 h3 h4 h5, of "textRemote ''yo''" "\<lambda>l. l" "''C''"]
  show ?thesis
    by (simp add: chat_def userMessage_def modelMessage_def)
qed

text \<open>
  The request of the edit path: its history is built from the messages before position
  \<open>k\<close> alone, and the edited message is sent as the new parts.
\<close>

lemma edit_request:
  assumes cur: "currentSessionId s = Some sid" "sid \<noteq> []"
    and found: "find (\<lambda>x. sess_id x = sid) (sessions s) = Some current"
    and k: "k < length (sess_messages current)"
    and first: "\<forall>j<k. msg_id (sess_messages current ! j) \<noteq> msg_id (sess_messages current ! k)"
    and parts: "newContent \<noteq> [] \<or> originalAttachments (sess_messages current ! k) \<noteq> []"
  shows "\<exists>more. run_calls (handleEditMessage env now s (msg_id (sess_messages current ! k)) newContent)
           = SendMessage (chatHistory (take k (sess_messages current)))
               (currentParts newContent (originalAttachments (sess_messages current ! k))) # more"
proof -
  let ?msgs = "sess_messages current"
  let ?m = "?msgs ! k"
  have idx: "findIndex (\<lambda>m. msg_id m = msg_id ?m) ?msgs = Some k"
    using k first by (intro findIndex_first) auto
  have found': "find (\<lambda>x. Some (sess_id x) = currentSessionId s) (sessions s) = Some current"
    using found cur by simp
  obtain res calls where res:
    "sendMessageToGemini env (take k ?msgs) newContent (originalAttachments ?m) = (res, calls)"
    by (cases "sendMessageToGemini env (take k ?msgs) newContent (originalAttachments ?m)")
  from send_calls_head [OF currentParts_nonempty [OF parts], of env "take k ?msgs"] res
  obtain more where
    "calls = SendMessage (chatHistory (take k ?msgs)) (currentParts newContent (originalAttachments ?m)) # more"
    by auto
  with cur idx found' res show ?thesis
    by (cases res)
       (simp_all add: handleEditMessage_def truthy_def Let_def run_defs handleError_def)
qed

section \<open>The request builder and the tool-call resolver\<close>

text \<open>
  C7. Whenever \<open>sendMessageToGemini\<close> returns an outcome, its text is not empty or it
  carries an attachment: an outcome with neither gets the fixed text of lines 180-182.
\<close>

theorem outcome_never_empty:
  "fst (sendMessageToGemini env history txt atts) = Inr out
   \<Longrightarrow> out_text out \<noteq> [] \<or> out_attachments out \<noteq> []"
  by (auto simp: sendMessageToGemini_def sendMessageToGemini_try_def fallback_def Let_def
      split: if_splits sum.splits prod.splits)

lemma empty_answer_outcome:
  "fst (sendMessageToGemini (textRemote []) [] ''hi'' []) =
     Inr \<lparr>out_text = ''I processed your request but have no text response.'',
          out_attachments = []\<rparr>"
  by (simp add: service_defs textRemote_def)

theorem outcome_never_empty_witness:
  "fst (sendMessageToGemini (textRemote []) [] ''hi'' []) =
     Inr \<lparr>out_text = ''I processed your request but have no text response.'',
          out_attachments = []\<rparr>
   \<and> out_text \<lparr>out_text = ''I processed your request but have no text response.'',
                out_attachments = []\<rparr> \<noteq> []"
  using outcome_never_empty [OF empty_answer_outcome] empty_answer_outcome by simp

text \<open>
  C8. The claim: a historical message with empty text and no attachment is left out of
  the built history. The builder maps every historical message to a turn
  (\<open>history.map\<close>, lines 66-90) and filters nothing: the request below, built from a
  history of one such message, carries a turn with no part for it.
\<close>

theorem empty_turn_counterexample:
  "snd (sendMessageToGemini (textRemote ''yo'') [userMessage ''m1'' []] ''hi'' [])
     = [SendMessage [\<lparr>cnt_role = UserRole, cnt_parts = []\<rparr>] [Text ''hi'']]"
  by (simp add: userMessage_def textRemote_def service_defs)

text \<open>
  C8, as the code has it. The built history has one turn per historical message, in
  order. A message with empty text and no attachment yields, at its position, a turn
  with its role and no part, and that history is the one sent with the first request.
\<close>

theorem empty_turn_kept:
  assumes "emptyTurn m"
  shows "length (chatHistory history) = length history
       \<and> chatHistory (xs @ m # ys)
           = chatHistory xs @ \<lparr>cnt_role = msg_role m, cnt_parts = []\<rparr> # chatHistory ys
       \<and> (txt \<noteq> [] \<or> atts \<noteq> [] \<longrightarrow>
           (\<exists>rest. snd (sendMessageToGemini env (xs @ m # ys) txt atts)
              = SendMessage
                  (chatHistory xs @ \<lparr>cnt_role = msg_role m, cnt_parts = []\<rparr> # chatHistory ys)
                  (currentParts txt atts) # rest))"
proof -
  have a: "length (chatHistory history) = length history"
    by (simp add: chatHistory_def)
  have b: "chatHistory (xs @ m # ys)
             = chatHistory xs @ \<lparr>cnt_role = msg_role m, cnt_parts = []\<rparr> # chatHistory ys"
    using assms by (simp add: chatHistory_append chatHistory_Cons_empty)
  have c: "\<exists>rest. snd (sendMessageToGemini env (xs @ m # ys) txt atts)
              = SendMessage
                  (chatHistory xs @ \<lparr>cnt_role = msg_role m, cnt_parts = []\<rparr> # chatHistory ys)
                  (currentParts txt atts) # rest" if "txt \<noteq> [] \<or> atts \<noteq> []"
  proof -
    from that have "currentParts txt atts \<noteq> []" by (rule currentParts_nonempty)
    from send_calls_head [OF this, of env "xs @ m # ys"] b show ?thesis by simp
  qed
  from a b c show ?thesis by blast
qed

theorem empty_turn_kept_witness:
  "emptyTurn (userMessage ''m2'' [])
   \<and> chatHistory ([userMessage ''m1'' ''a''] @ userMessage ''m2'' [] # [modelMessage ''m3'' ''b''])
       = [\<lparr>cnt_role = UserRole, cnt_parts = [Text ''a'']\<rparr>,
          \<lparr>cnt_role = UserRole, cnt_parts = []\<rparr>,
          \<lparr>cnt_role = ModelRole, cnt_parts = [Text ''b'']\<rparr>]"
proof -
  have h: "emptyTurn (userMessage ''m2'' [])"
    by (simp add: emptyTurn_def userMessage_def)
  from empty_turn_kept [OF h, of "[]" "[userMessage ''m1'' ''a'']" "[modelMessage ''m3'' ''b'']"]
  show ?thesis using h
    by (simp add: chatHistory_def userMessage_def modelMessage_def)
qed

text \<open>
  C10. Of the tool calls of an answer only the first is read: the calls after it do not
  change what the resolver does. When its name is not \<open>generate_image\<close>, the text of the
  answer is kept as it is, there is no generated attachment and no request is issued (no
  image generation), so that \<open>sendMessageToGemini\<close> issues the first request only and
  returns that text (after the fallback of lines 180-182 for an empty outcome). When its
  name is \<open>generate_image\<close> and it has arguments, the image backend is called.
\<close>

theorem only_first_tool_call_examined:
  assumes "res_functionCalls result = Some (call # rest)"
  shows "handleFunctionCalls env result
           = handleFunctionCalls env (result\<lparr>res_functionCalls := Some [call]\<rparr>)
    \<and> (fc_name call \<noteq> ''generate_image'' \<longrightarrow>
           handleFunctionCalls env result =
             (Inr (case res_text result of None \<Rightarrow> [] | Some t \<Rightarrow> t, []), []))
    \<and> (fc_name call \<noteq> ''generate_image'' \<and> (txt \<noteq> [] \<or> atts \<noteq> [])
          \<and> sendMessage env (chatHistory history) (currentParts txt atts) = Inr result \<longrightarrow>
           sendMessageToGemini env history txt atts =
             (Inr (fallback (case res_text result of None \<Rightarrow> [] | Some t \<Rightarrow> t, [])),
              [SendMessage (chatHistory history) (currentParts txt atts)]))
    \<and> (fc_name call = ''generate_image'' \<and> fc_args call = Some args \<longrightarrow>
           (\<exists>more. snd (handleFunctionCalls env result)
                     = GenerateImages (map_of args ''prompt'') # more))"
proof -
  have a: "handleFunctionCalls env result
           = handleFunctionCalls env (result\<lparr>res_functionCalls := Some [call]\<rparr>)"
    using assms by (simp add: handleFunctionCalls_def)
  have b: "handleFunctionCalls env result =
             (Inr (case res_text result of None \<Rightarrow> [] | Some t \<Rightarrow> t, []), [])"
    if "fc_name call \<noteq> ''generate_image''"
    using assms that by (simp add: handleFunctionCalls_def)
  have c: "sendMessageToGemini env history txt atts =
             (Inr (fallback (case res_text result of None \<Rightarrow> [] | Some t \<Rightarrow> t, [])),
              [SendMessage (chatHistory history) (currentParts txt atts)])"
    if "fc_name call \<noteq> ''generate_image''" "txt \<noteq> [] \<or> atts \<noteq> []"
       "sendMessage env (chatHistory history) (currentParts txt atts) = Inr result"
    using b [OF that(1)] currentParts_nonempty [OF that(2)] that(3)
    by (simp add: sendMessageToGemini_def sendMessageToGemini_try_def Let_def)
  have d: "\<exists>more. snd (handleFunctionCalls env result) = GenerateImages (map_of args ''prompt'') # more"
    if "fc_name call = ''generate_image''" "fc_args call = Some args"
    using assms that
    by (auto simp: handleFunctionCalls_def Let_def split: sum.splits option.splits list.splits)
  from a b c d show ?thesis by blast
qed

theorem only_first_tool_call_examined_witness:
  "fc_name (toolCall ''search'') \<noteq> ''generate_image''
   \<and> handleFunctionCalls (toolRemote ''search'' (Inl (Error ''network'')))
      \<lparr>res_text = Some ''One moment.'',
       res_functionCalls = Some [toolCall ''search'', toolCall ''generate_image'']\<rparr>
     = (Inr (''One moment.'', []), [])"
proof -
  let ?result = "\<lparr>res_text = Some ''One moment.'',
                  res_functionCalls = Some [toolCall ''search'', toolCall ''generate_image'']\<rparr>"
  have h: "res_functionCalls ?result = Some (toolCall ''search'' # [toolCall ''generate_image''])"
    by simp
  have n: "fc_name (toolCall ''search'') \<noteq> ''generate_image''"
    by (simp add: toolCall_def)
  from only_first_tool_call_examined
         [OF h, of "toolRemote ''search'' (Inl (Error ''network''))" "''hi''" "[]" "[]"
            "[(''prompt'', ''a cat'')]"]
  have "handleFunctionCalls (toolRemote ''search'' (Inl (Error ''network''))) ?result
          = (Inr (case res_text ?result of None \<Rightarrow> [] | Some t \<Rightarrow> t, []), [])"
    using n by blast
  with n show ?thesis by simp
qed

section \<open>The session list\<close>

text \<open>
  C9. The claim: deleting the current session makes current the next remaining session in
  list order. \<open>handleDeleteChat\<close> selects \<open>remaining[0]\<close>, the head of the list that
  is left, wherever the deleted session stood: with three sessions and the second one
  current, deleting it selects the first session, which precedes the deleted one, and
  not the third, which follows it.
\<close>

theorem delete_selects_head_counterexample:
  "sessions (handleDeleteChat ''chat_2''
       (app [chat ''chat_1'' [], chat ''chat_2'' [], chat ''chat_3'' []] (Some ''chat_2'') IDLE))
     = [chat ''chat_1'' [], chat ''chat_3'' []]
   \<and> currentSessionId (handleDeleteChat ''chat_2''
       (app [chat ''chat_1'' [], chat ''chat_2'' [], chat ''chat_3'' []] (Some ''chat_2'') IDLE))
     = Some ''chat_1''
   \<and> currentSessionId (handleDeleteChat ''chat_2''
       (app [chat ''chat_1'' [], chat ''chat_2'' [], chat ''chat_3'' []] (Some ''chat_2'') IDLE))
     \<noteq> Some ''chat_3''"
  by (simp add: handleDeleteChat_def Let_def app_def chat_def)

text \<open>
  C9, as the code has it. For a logged-in user (the handler returns at once otherwise,
  line 62), \<open>createNewChat\<close> puts the new session at the head of the list and makes it
  current. \<open>handleDeleteChat\<close> leaves the sessions with another identifier, in order;
  when the deleted session was current, the current session becomes the first of the
  sessions left, that is the first session of the list before the deletion that has
  another identifier, or none when none is left; otherwise the current selection is
  unchanged.
\<close>

theorem create_and_delete_session:
  "(user s \<noteq> None \<longrightarrow>
      sessions (createNewChat now s)
        = \<lparr>sess_id = ''chat_'' @ show_nat (now 64), sess_title = ''New Conversation'',
           sess_messages = [], sess_createdAt = now 69\<rparr> # sessions s
      \<and> currentSessionId (createNewChat now s) = Some (''chat_'' @ show_nat (now 64)))
   \<and> sessions (handleDeleteChat ident s) = filter (\<lambda>x. sess_id x \<noteq> ident) (sessions s)
   \<and> (currentSessionId s = Some ident \<longrightarrow>
        currentSessionId (handleDeleteChat ident s)
          = (case filter (\<lambda>x. sess_id x \<noteq> ident) (sessions s) of
               [] \<Rightarrow> None | x # _ \<Rightarrow> Some (sess_id x)))
   \<and> (currentSessionId s = Some ident \<longrightarrow>
        currentSessionId (handleDeleteChat ident s)
          = map_option sess_id (find (\<lambda>x. sess_id x \<noteq> ident) (sessions s)))
   \<and> (currentSessionId s \<noteq> Some ident \<longrightarrow>
        currentSessionId (handleDeleteChat ident s) = currentSessionId s)"
proof -
  have "currentSessionId (handleDeleteChat ident s)
          = (case filter (\<lambda>x. sess_id x \<noteq> ident) (sessions s) of
               [] \<Rightarrow> None | x # _ \<Rightarrow> Some (sess_id x))"
    if "currentSessionId s = Some ident"
    using that by (simp add: handleDeleteChat_def Let_def)
  then show ?thesis
    by (simp add: createNewChat_def handleDeleteChat_def Let_def head_of_filter)
qed

theorem create_and_delete_session_witness:
  "user (app [chat ''chat_1'' [], chat ''chat_2'' [], chat ''chat_3'' []] (Some ''chat_3'') IDLE)
     \<noteq> None
   \<and> sessions (createNewChat (\<lambda>l. l)
        (app [chat ''chat_1'' [], chat ''chat_2'' [], chat ''chat_3'' []] (Some ''chat_3'') IDLE))
       = \<lparr>sess_id = ''chat_64'', sess_title = ''New Conversation'', sess_messages = [],
          sess_createdAt = 69\<rparr> # [chat ''chat_1'' [], chat ''chat_2'' [], chat ''chat_3'' []]
   \<and> currentSessionId (createNewChat (\<lambda>l. l)
        (app [chat ''chat_1'' [], chat ''chat_2'' [], chat ''chat_3'' []] (Some ''chat_3'') IDLE))
       = Some ''chat_64''
   \<and> sessions (handleDeleteChat ''chat_3''
        (app [chat ''chat_1'' [], chat ''chat_2'' [], chat ''chat_3'' []] (Some ''chat_3'') IDLE))
       = [chat ''chat_1'' [], chat ''chat_2'' []]
   \<and> currentSessionId (handleDeleteChat ''chat_3''
        (app [chat ''chat_1'' [], chat ''chat_2'' [], chat ''chat_3'' []] (Some ''chat_3'') IDLE))
       = Some ''chat_1''
   \<and> currentSessionId (handleDeleteChat ''chat_2''
        (app [chat ''chat_1'' [], chat ''chat_2'' [], chat ''chat_3'' []] (Some ''chat_3'') IDLE))
       = Some ''chat_3''
   \<and> currentSessionId (handleDeleteChat ''chat_1'' (app [chat ''chat_1'' []] (Some ''chat_1'') IDLE))
       = None"
  using create_and_delete_session
      [of "app [chat ''chat_1'' [], chat ''chat_2'' [], chat ''chat_3'' []] (Some ''chat_3'') IDLE"
          "\<lambda>l. l" "''chat_3''"]
    create_and_delete_session
      [of "app [chat ''chat_1'' [], chat ''chat_2'' [], chat ''chat_3'' []] (Some ''chat_3'') IDLE"
          "\<lambda>l. l" "''chat_2''"]
    create_and_delete_session
      [of "app [chat ''chat_1'' []] (Some ''chat_1'') IDLE" "\<lambda>l. l" "''chat_1''"]
  by (simp add: app_def chat_def show_nat_64)

end
